theory Spec2Isabelle
  imports Main "HOL-Library.Word"
begin

section \<open>Automated mine ventilation door: the control sketch\<close>

text \<open>
  The sketch \<^verbatim>\<open>automated_ventilation_door_v2.ino\<close> keeps three global variables and
  drives three output pins. \<^verbatim>\<open>loop()\<close> is one polling cycle: it reads the sensors,
  applies the safety override, takes at most one step of the door state machine and
  writes the outputs.
\<close>

subsection \<open>Data\<close>

text \<open>\<^verbatim>\<open>enum DoorState { CLOSED, OPENING, OPEN, CLOSING }\<close>\<close>

datatype DoorState = CLOSED | OPENING | OPEN | CLOSING

text \<open>The level of a digital pin, as \<^verbatim>\<open>digitalRead\<close> returns and \<^verbatim>\<open>digitalWrite\<close> takes it.\<close>

datatype level = LOW | HIGH

text \<open>
  \<^verbatim>\<open>millis()\<close> and the two timestamps are \<^verbatim>\<open>unsigned long\<close>: 32 bits on the
  Arduino targets, so subtraction wraps around.
\<close>

type_synonym millis = "32 word"

text \<open>
  The configuration constants. They are \<^verbatim>\<open>const long\<close>; in the comparisons
  \<^verbatim>\<open>millis() - stamp >= CONSTANT\<close> the left side is \<^verbatim>\<open>unsigned long\<close>, so the
  constant is converted to \<^verbatim>\<open>unsigned long\<close>, which leaves 15000 and 10000 as they
  are, and the comparison is unsigned.
\<close>

definition DOOR_TRAVEL_TIME_MS :: millis where
  "DOOR_TRAVEL_TIME_MS = 15000"

definition DOOR_OPEN_DURATION_MS :: millis where
  "DOOR_OPEN_DURATION_MS = 10000"

definition MOTION_SENSITIVITY_THRESHOLD :: int where
  "MOTION_SENSITIVITY_THRESHOLD = 1"

text \<open>\<^verbatim>\<open>sizeof(RADAR_SENSOR_PINS) / sizeof(RADAR_SENSOR_PINS[0])\<close> for the five pins A0, A1, A5, A3, A4.\<close>

definition NUM_RADAR_SENSORS :: nat where
  "NUM_RADAR_SENSORS = 5"

text \<open>
  What \<^verbatim>\<open>digitalRead\<close> returns during one cycle: the two infrared obstacle pins, and
  the radar pins by their index in \<^verbatim>\<open>RADAR_SENSOR_PINS\<close>.
\<close>

record inputs =
  OBSTACLE_IR_PIN_1 :: level
  OBSTACLE_IR_PIN_2 :: level
  RADAR_SENSOR_PINS :: "nat \<Rightarrow> level"

text \<open>
  The global variables of the sketch, and the level last written to each output pin
  (relay 1 is the door motor, relay 2 the status light: \<^verbatim>\<open>HIGH\<close> is green).
\<close>

record door =
  currentDoorState :: DoorState
  stateChangeTimestamp :: millis
  lastMotionDetectedTimestamp :: millis
  DOOR_MOTOR_RELAY_PIN :: level
  STATUS_LIGHT_RELAY_PIN :: level
  BUZZER_PIN :: level

subsection \<open>Start of the program\<close>

text \<open>
  The static initialisers: \<^verbatim>\<open>currentDoorState = CLOSED\<close>, both timestamps 0. The output
  pins are low after reset.
\<close>

definition power_on :: door where
  "power_on = \<lparr>currentDoorState = CLOSED, stateChangeTimestamp = 0,
     lastMotionDetectedTimestamp = 0, DOOR_MOTOR_RELAY_PIN = LOW,
     STATUS_LIGHT_RELAY_PIN = LOW, BUZZER_PIN = LOW\<rparr>"

text \<open>
  \<^verbatim>\<open>setup()\<close> (here \<open>setup_sketch\<close>) configures the pins and writes \<^verbatim>\<open>LOW\<close> to the
  three outputs. It does not touch the global variables.
\<close>

definition setup_sketch :: "door \<Rightarrow> door" where
  "setup_sketch s = s\<lparr>DOOR_MOTOR_RELAY_PIN := LOW, STATUS_LIGHT_RELAY_PIN := LOW, BUZZER_PIN := LOW\<rparr>"

text \<open>
  \<^verbatim>\<open>millis()\<close> counts the milliseconds since the board began running the program,
  so the clock reads 0 when the program starts.
\<close>

definition millis_at_start :: millis where
  "millis_at_start = 0"

subsection \<open>One cycle: \<^verbatim>\<open>loop()\<close>\<close>

text \<open>
  Section 1 of \<^verbatim>\<open>loop()\<close>, the local variables.
  \<^verbatim>\<open>obstacleDetected = (digitalRead(OBSTACLE_IR_PIN_1) == LOW || digitalRead(OBSTACLE_IR_PIN_2) == LOW)\<close>
\<close>

definition obstacleDetected :: "inputs \<Rightarrow> bool" where
  "obstacleDetected p = (OBSTACLE_IR_PIN_1 p = LOW \<or> OBSTACLE_IR_PIN_2 p = LOW)"

text \<open>
  The counting loop \<^verbatim>\<open>for (int i = 0; i < NUM_RADAR_SENSORS; i++)\<close>, from index
  \<open>i\<close> with \<open>n\<close> sensors counted so far.
\<close>

function count_radar :: "inputs \<Rightarrow> nat \<Rightarrow> int \<Rightarrow> int" where
  "count_radar p i n =
     (if i < NUM_RADAR_SENSORS
      then count_radar p (i + 1) (if RADAR_SENSOR_PINS p i = HIGH then n + 1 else n)
      else n)"
  by pat_completeness auto
termination
  by (relation "measure (\<lambda>(p, i, n). NUM_RADAR_SENSORS - i)") auto

declare count_radar.simps [simp del]

definition activeRadarSensors :: "inputs \<Rightarrow> int" where
  "activeRadarSensors p = count_radar p 0 0"

definition motionDetected :: "inputs \<Rightarrow> bool" where
  "motionDetected p = (MOTION_SENSITIVITY_THRESHOLD \<le> activeRadarSensors p)"

text \<open>
  The clock. \<^verbatim>\<open>loop()\<close> calls \<^verbatim>\<open>millis()\<close> wherever it needs the time, up to three
  times in one pass and microseconds apart; the model gives one cycle one reading
  \<open>now\<close>, the polling instant of the cycle, as the contract
  \<^verbatim>\<open>evaluate(snapshot, now)\<close> of the specification does.

  The end of section 1: \<^verbatim>\<open>if (motionDetected) lastMotionDetectedTimestamp = millis();\<close>
\<close>

definition record_motion :: "inputs \<Rightarrow> millis \<Rightarrow> door \<Rightarrow> door" where
  "record_motion p now s =
     (if motionDetected p then s\<lparr>lastMotionDetectedTimestamp := now\<rparr> else s)"

text \<open>
  Section 2, the safety override: with an obstacle, a door that is neither opening nor
  open is forced to \<open>OPENING\<close>; the buzzer follows the obstacle sensors.
\<close>

definition safety_override :: "inputs \<Rightarrow> millis \<Rightarrow> door \<Rightarrow> door" where
  "safety_override p now s =
     (if obstacleDetected p
      then (if currentDoorState s \<noteq> OPENING \<and> currentDoorState s \<noteq> OPEN
            then s\<lparr>currentDoorState := OPENING, stateChangeTimestamp := now\<rparr>
            else s)\<lparr>BUZZER_PIN := HIGH\<rparr>
      else s\<lparr>BUZZER_PIN := LOW\<rparr>)"

text \<open>Section 3, the \<^verbatim>\<open>switch (currentDoorState)\<close>: one case runs, then \<^verbatim>\<open>break\<close>.\<close>

definition state_machine :: "inputs \<Rightarrow> millis \<Rightarrow> door \<Rightarrow> door" where
  "state_machine p now s =
     (case currentDoorState s of
        CLOSED \<Rightarrow>
          (if motionDetected p
           then s\<lparr>currentDoorState := OPENING, stateChangeTimestamp := now\<rparr>
           else s)
      | OPENING \<Rightarrow>
          (if DOOR_TRAVEL_TIME_MS \<le> now - stateChangeTimestamp s
           then s\<lparr>currentDoorState := OPEN\<rparr>
           else s)
      | OPEN \<Rightarrow>
          (if DOOR_OPEN_DURATION_MS \<le> now - lastMotionDetectedTimestamp s
           then (if \<not> obstacleDetected p
                 then s\<lparr>currentDoorState := CLOSING, stateChangeTimestamp := now\<rparr>
                 else s)
           else s)
      | CLOSING \<Rightarrow>
          (if DOOR_TRAVEL_TIME_MS \<le> now - stateChangeTimestamp s
           then s\<lparr>currentDoorState := CLOSED\<rparr>
           else s))"

text \<open>Section 4: the motor relay and the status light, from the state the cycle ends in.\<close>

definition set_physical_outputs :: "door \<Rightarrow> door" where
  "set_physical_outputs s =
     s\<lparr>DOOR_MOTOR_RELAY_PIN :=
         (if currentDoorState s = OPENING \<or> currentDoorState s = OPEN then HIGH else LOW),
       STATUS_LIGHT_RELAY_PIN :=
         (if currentDoorState s = OPEN then HIGH else LOW)\<rparr>"

text \<open>
  \<^verbatim>\<open>loop()\<close>: the four sections in the order of the source. The messages printed on
  the serial line have no effect on the variables or the pins and are left out.
\<close>

definition loop :: "inputs \<Rightarrow> millis \<Rightarrow> door \<Rightarrow> door" where
  "loop p now s =
     set_physical_outputs (state_machine p now (safety_override p now (record_motion p now s)))"

text \<open>
  The Arduino runtime calls \<^verbatim>\<open>loop()\<close> again and again. A run is the list of its
  cycles, each with what the sensors read and what the clock shows.
\<close>

fun run :: "(inputs \<times> millis) list \<Rightarrow> door \<Rightarrow> door" where
  "run [] s = s"
| "run ((p, now) # cs) s = run cs (loop p now s)"

subsection \<open>The dwell test over several cycles\<close>

text \<open>
  The test of the \<open>OPEN\<close> case,
  \<^verbatim>\<open>millis() - lastMotionDetectedTimestamp >= DOOR_OPEN_DURATION_MS\<close>, as a cycle that
  starts in \<open>s\<close> evaluates it: after section 1 has recorded the motion of this cycle.
\<close>

definition dwell_expired :: "inputs \<Rightarrow> millis \<Rightarrow> door \<Rightarrow> bool" where
  "dwell_expired p now s =
     (DOOR_OPEN_DURATION_MS \<le> now - lastMotionDetectedTimestamp (record_motion p now s))"

text \<open>
  Every cycle of the list, run from \<open>s\<close>, has an obstacle present while its dwell test
  passes.
\<close>

fun dwell_withheld :: "(inputs \<times> millis) list \<Rightarrow> door \<Rightarrow> bool" where
  "dwell_withheld [] s = True"
| "dwell_withheld ((p, now) # cs) s =
     (obstacleDetected p \<and> dwell_expired p now s \<and> dwell_withheld cs (loop p now s))"

text \<open>
  No cycle of the list, run from \<open>s\<close>, has its dwell test passing with no obstacle
  present.
\<close>

fun no_closing_due :: "(inputs \<times> millis) list \<Rightarrow> door \<Rightarrow> bool" where
  "no_closing_due [] s = True"
| "no_closing_due ((p, now) # cs) s =
     (\<not> (\<not> obstacleDetected p \<and> dwell_expired p now s) \<and> no_closing_due cs (loop p now s))"

subsection \<open>Sample readings and runs\<close>

text \<open>
  Three sensor readings: nothing detected; an object in front of the second infrared
  sensor; motion at the third radar module.
\<close>

definition no_signal :: inputs where
  "no_signal = \<lparr>OBSTACLE_IR_PIN_1 = HIGH, OBSTACLE_IR_PIN_2 = HIGH,
     RADAR_SENSOR_PINS = (\<lambda>i. LOW)\<rparr>"

definition obstacle_signal :: inputs where
  "obstacle_signal = \<lparr>OBSTACLE_IR_PIN_1 = HIGH, OBSTACLE_IR_PIN_2 = LOW,
     RADAR_SENSOR_PINS = (\<lambda>i. LOW)\<rparr>"

definition motion_signal :: inputs where
  "motion_signal = \<lparr>OBSTACLE_IR_PIN_1 = HIGH, OBSTACLE_IR_PIN_2 = HIGH,
     RADAR_SENSOR_PINS = (\<lambda>i. if i = 2 then HIGH else LOW)\<rparr>"

text \<open>The door after the first cycle of a run in which motion is seen at time 0.\<close>

definition door_opening :: door where
  "door_opening = loop motion_signal 0 (setup_sketch power_on)"

text \<open>
  The door of scenario B: opened by motion at time 0, open since the cycle at 15000,
  last motion at 20000.
\<close>

definition door_open :: door where
  "door_open =
     run [(motion_signal, 0), (no_signal, 15000), (motion_signal, 20000)] (setup_sketch power_on)"

text \<open>The same door left alone until the dwell time ran out at 30000: it is closing.\<close>

definition door_closing :: door where
  "door_closing = loop no_signal 30000 door_open"

section \<open>Properties\<close>

subsection \<open>Facts about the constants and the sections of a cycle\<close>

lemma travel_time_not_zero [simp]: "DOOR_TRAVEL_TIME_MS \<noteq> 0"
  by (simp add: DOOR_TRAVEL_TIME_MS_def)

lemma open_duration_not_zero [simp]: "DOOR_OPEN_DURATION_MS \<noteq> 0"
  by (simp add: DOOR_OPEN_DURATION_MS_def)

lemmas cycle_defs =
  loop_def set_physical_outputs_def state_machine_def safety_override_def record_motion_def

text \<open>What one cycle does to each variable and each pin.\<close>

lemma loop_lastMotion:
  "lastMotionDetectedTimestamp (loop p now s) =
     (if motionDetected p then now else lastMotionDetectedTimestamp s)"
  by (simp add: cycle_defs split: DoorState.split)

lemma loop_buzzer: "BUZZER_PIN (loop p now s) = (if obstacleDetected p then HIGH else LOW)"
  by (simp add: cycle_defs split: DoorState.split)

lemma loop_motor:
  "DOOR_MOTOR_RELAY_PIN (loop p now s) =
     (if currentDoorState (loop p now s) = OPENING \<or> currentDoorState (loop p now s) = OPEN
      then HIGH else LOW)"
  by (simp add: loop_def set_physical_outputs_def)

lemma loop_light:
  "STATUS_LIGHT_RELAY_PIN (loop p now s) =
     (if currentDoorState (loop p now s) = OPEN then HIGH else LOW)"
  by (simp add: loop_def set_physical_outputs_def)

text \<open>The cycle from each of the four states: the state and the timestamp it ends with.\<close>

lemma loop_CLOSED:
  "currentDoorState s = CLOSED \<Longrightarrow>
   currentDoorState (loop p now s) =
     (if obstacleDetected p \<or> motionDetected p then OPENING else CLOSED)
   \<and> stateChangeTimestamp (loop p now s) =
     (if obstacleDetected p \<or> motionDetected p then now else stateChangeTimestamp s)"
  by (simp add: cycle_defs)

lemma loop_OPENING:
  "currentDoorState s = OPENING \<Longrightarrow>
   currentDoorState (loop p now s) =
     (if DOOR_TRAVEL_TIME_MS \<le> now - stateChangeTimestamp s then OPEN else OPENING)
   \<and> stateChangeTimestamp (loop p now s) = stateChangeTimestamp s"
  by (simp add: cycle_defs)

lemma loop_OPEN:
  "currentDoorState s = OPEN \<Longrightarrow>
   currentDoorState (loop p now s) =
     (if \<not> obstacleDetected p \<and> \<not> motionDetected p
         \<and> DOOR_OPEN_DURATION_MS \<le> now - lastMotionDetectedTimestamp s
      then CLOSING else OPEN)
   \<and> stateChangeTimestamp (loop p now s) =
     (if \<not> obstacleDetected p \<and> \<not> motionDetected p
         \<and> DOOR_OPEN_DURATION_MS \<le> now - lastMotionDetectedTimestamp s
      then now else stateChangeTimestamp s)"
  by (simp add: cycle_defs)

lemma loop_CLOSING:
  "currentDoorState s = CLOSING \<Longrightarrow>
   currentDoorState (loop p now s) =
     (if obstacleDetected p then OPENING
      else if DOOR_TRAVEL_TIME_MS \<le> now - stateChangeTimestamp s then CLOSED else CLOSING)
   \<and> stateChangeTimestamp (loop p now s) =
     (if obstacleDetected p then now else stateChangeTimestamp s)"
  by (simp add: cycle_defs)

text \<open>The sample readings and the sample doors, evaluated.\<close>

lemma no_signal_reads [simp]: "\<not> obstacleDetected no_signal" "\<not> motionDetected no_signal"
  by (simp_all add: obstacleDetected_def motionDetected_def activeRadarSensors_def
      MOTION_SENSITIVITY_THRESHOLD_def no_signal_def count_radar.simps NUM_RADAR_SENSORS_def)

lemma obstacle_signal_reads [simp]:
  "obstacleDetected obstacle_signal" "\<not> motionDetected obstacle_signal"
  by (simp_all add: obstacleDetected_def motionDetected_def activeRadarSensors_def
      MOTION_SENSITIVITY_THRESHOLD_def obstacle_signal_def count_radar.simps NUM_RADAR_SENSORS_def)

lemma motion_signal_reads [simp]:
  "\<not> obstacleDetected motion_signal" "motionDetected motion_signal"
  by (simp_all add: obstacleDetected_def motionDetected_def activeRadarSensors_def
      MOTION_SENSITIVITY_THRESHOLD_def motion_signal_def count_radar.simps NUM_RADAR_SENSORS_def)

lemma started_eq:
  "setup_sketch power_on = \<lparr>currentDoorState = CLOSED, stateChangeTimestamp = 0,
     lastMotionDetectedTimestamp = 0, DOOR_MOTOR_RELAY_PIN = LOW,
     STATUS_LIGHT_RELAY_PIN = LOW, BUZZER_PIN = LOW\<rparr>"
  by (simp add: setup_sketch_def power_on_def)

lemma door_opening_eq:
  "door_opening = \<lparr>currentDoorState = OPENING, stateChangeTimestamp = 0,
     lastMotionDetectedTimestamp = 0, DOOR_MOTOR_RELAY_PIN = HIGH,
     STATUS_LIGHT_RELAY_PIN = LOW, BUZZER_PIN = LOW\<rparr>"
  by (simp add: door_opening_def started_eq cycle_defs)

lemma door_open_eq:
  "door_open = \<lparr>currentDoorState = OPEN, stateChangeTimestamp = 0,
     lastMotionDetectedTimestamp = 20000, DOOR_MOTOR_RELAY_PIN = HIGH,
     STATUS_LIGHT_RELAY_PIN = HIGH, BUZZER_PIN = LOW\<rparr>"
  by (simp add: door_open_def started_eq cycle_defs DOOR_TRAVEL_TIME_MS_def
      DOOR_OPEN_DURATION_MS_def)

lemma door_closing_eq:
  "door_closing = \<lparr>currentDoorState = CLOSING, stateChangeTimestamp = 30000,
     lastMotionDetectedTimestamp = 20000, DOOR_MOTOR_RELAY_PIN = LOW,
     STATUS_LIGHT_RELAY_PIN = LOW, BUZZER_PIN = LOW\<rparr>"
  by (simp add: door_closing_def door_open_eq cycle_defs DOOR_TRAVEL_TIME_MS_def
      DOOR_OPEN_DURATION_MS_def)

subsection \<open>Start of the program\<close>

text \<open>
  C8. When the program starts, before the first cycle, the door state is \<open>CLOSED\<close>,
  \<open>stateChangeTimestamp\<close> is the clock value at the start of the program, and
  \<open>lastMotionDetectedTimestamp\<close> is 0.
\<close>

theorem state_at_program_start:
  "currentDoorState (setup_sketch power_on) = CLOSED
   \<and> stateChangeTimestamp (setup_sketch power_on) = millis_at_start
   \<and> lastMotionDetectedTimestamp (setup_sketch power_on) = 0"
  by (simp add: setup_sketch_def power_on_def millis_at_start_def)

subsection \<open>The safety override\<close>

text \<open>
  C1. In a cycle whose sensors report an obstacle and that starts in \<open>CLOSED\<close> or
  \<open>CLOSING\<close>, the override sets the state to \<open>OPENING\<close> and the timestamp to \<open>now\<close>
  before the state machine runs, whatever the motion sensors read and whatever the
  timestamps were; the state machine then leaves both as they are, so the cycle ends in
  \<open>OPENING\<close> with \<open>stateChangeTimestamp = now\<close>.
\<close>

theorem obstacle_forces_opening:
  assumes "obstacleDetected p"
    and "currentDoorState s = CLOSED \<or> currentDoorState s = CLOSING"
  shows "currentDoorState (safety_override p now (record_motion p now s)) = OPENING
     \<and> stateChangeTimestamp (safety_override p now (record_motion p now s)) = now
     \<and> currentDoorState (loop p now s) = OPENING
     \<and> stateChangeTimestamp (loop p now s) = now"
  using assms by (auto simp add: cycle_defs)

text \<open>An obstacle at 31000 under the closing door.\<close>

theorem obstacle_forces_opening_witness:
  "obstacleDetected obstacle_signal \<and> currentDoorState door_closing = CLOSING
   \<and> currentDoorState
       (safety_override obstacle_signal 31000 (record_motion obstacle_signal 31000 door_closing))
       = OPENING
   \<and> currentDoorState (loop obstacle_signal 31000 door_closing) = OPENING
   \<and> stateChangeTimestamp (loop obstacle_signal 31000 door_closing) = 31000"
  using obstacle_forces_opening [of obstacle_signal door_closing 31000]
  by (simp add: door_closing_eq)

text \<open>
  C9. In a cycle whose sensors report an obstacle the state at the end is \<open>OPENING\<close> or
  \<open>OPEN\<close>, from any state, and the motor relay is on. The only write to the motor pin
  in the cycle is the one in section 4: the earlier sections leave the pin as it was.
\<close>

theorem obstacle_keeps_motor_engaged:
  assumes "obstacleDetected p"
  shows "(currentDoorState (loop p now s) = OPENING \<or> currentDoorState (loop p now s) = OPEN)
     \<and> DOOR_MOTOR_RELAY_PIN (loop p now s) = HIGH
     \<and> DOOR_MOTOR_RELAY_PIN (state_machine p now (safety_override p now (record_motion p now s)))
         = DOOR_MOTOR_RELAY_PIN s"
  using assms by (auto simp add: cycle_defs split: DoorState.split)

text \<open>An obstacle in the first cycle after the start, at 500.\<close>

theorem obstacle_keeps_motor_engaged_witness:
  "obstacleDetected obstacle_signal
   \<and> currentDoorState (loop obstacle_signal 500 (setup_sketch power_on)) = OPENING
   \<and> DOOR_MOTOR_RELAY_PIN (loop obstacle_signal 500 (setup_sketch power_on)) = HIGH"
  using obstacle_keeps_motor_engaged [of obstacle_signal 500 "setup_sketch power_on"]
    loop_CLOSED [of "setup_sketch power_on" obstacle_signal 500]
  by (simp add: started_eq)

subsection \<open>Travel time\<close>

text \<open>
  C4. A cycle that starts in \<open>OPENING\<close> with \<open>stateChangeTimestamp = T\<close> and no obstacle
  ends in \<open>OPEN\<close> if and only if \<open>now - T \<ge> DOOR_TRAVEL_TIME_MS\<close>; when
  \<open>now - T < DOOR_TRAVEL_TIME_MS\<close> it ends in \<open>OPENING\<close>.
\<close>

theorem opening_becomes_open_iff:
  assumes "currentDoorState s = OPENING" and "stateChangeTimestamp s = T"
    and "\<not> obstacleDetected p"
  shows "(currentDoorState (loop p now s) = OPEN \<longleftrightarrow> DOOR_TRAVEL_TIME_MS \<le> now - T)
     \<and> (now - T < DOOR_TRAVEL_TIME_MS \<longrightarrow> currentDoorState (loop p now s) = OPENING)"
  using assms loop_OPENING [of s p now] by auto

text \<open>The door that began to open at 0, in a quiet cycle at 15000 and in one at 14999.\<close>

theorem opening_becomes_open_iff_witness:
  "currentDoorState door_opening = OPENING \<and> stateChangeTimestamp door_opening = 0
   \<and> \<not> obstacleDetected no_signal
   \<and> DOOR_TRAVEL_TIME_MS \<le> 15000 - 0
   \<and> currentDoorState (loop no_signal 15000 door_opening) = OPEN
   \<and> 14999 - 0 < DOOR_TRAVEL_TIME_MS
   \<and> currentDoorState (loop no_signal 14999 door_opening) = OPENING"
  using opening_becomes_open_iff [of door_opening 0 no_signal 15000]
    opening_becomes_open_iff [of door_opening 0 no_signal 14999]
  by (simp add: door_opening_eq DOOR_TRAVEL_TIME_MS_def)

lemma opening_run:
  "currentDoorState s = OPENING \<Longrightarrow>
   \<forall>(q, t) \<in> set cs. t - stateChangeTimestamp s < DOOR_TRAVEL_TIME_MS \<Longrightarrow>
   currentDoorState (run cs s) = OPENING
   \<and> stateChangeTimestamp (run cs s) = stateChangeTimestamp s"
proof (induction cs arbitrary: s)
  case Nil
  then show ?case by simp
next
  case (Cons c cs)
  obtain p t where c: "c = (p, t)" by (cases c)
  from Cons.prems c have early: "t - stateChangeTimestamp s < DOOR_TRAVEL_TIME_MS" by simp
  have st: "currentDoorState (loop p t s) = OPENING"
    and ts: "stateChangeTimestamp (loop p t s) = stateChangeTimestamp s"
    using loop_OPENING [OF Cons.prems(1), of p t] early by simp_all
  from Cons.prems(2) ts
  have "\<forall>(q, t') \<in> set cs. t' - stateChangeTimestamp (loop p t s) < DOOR_TRAVEL_TIME_MS"
    by simp
  from Cons.IH [OF st this] ts c show ?case by simp
qed

text \<open>
  C10. While the state is \<open>OPENING\<close> no sensor reading changes \<open>stateChangeTimestamp\<close>:
  through any cycles \<open>cs\<close> whose clock values are less than the travel time after the
  timestamp, with any sensor readings (motion, obstacle or none), the state stays
  \<open>OPENING\<close> and the timestamp stays what it was; the next cycle, again with any
  reading \<open>p\<close>, keeps the timestamp and ends in \<open>OPEN\<close> exactly when
  \<open>now - stateChangeTimestamp \<ge> DOOR_TRAVEL_TIME_MS\<close>. The time spent in \<open>OPENING\<close> is
  fixed by the travel time alone.
\<close>

theorem opening_independent_of_sensors:
  assumes "currentDoorState s = OPENING"
    and "\<forall>(q, t) \<in> set cs. t - stateChangeTimestamp s < DOOR_TRAVEL_TIME_MS"
  shows "currentDoorState (run cs s) = OPENING
     \<and> stateChangeTimestamp (run cs s) = stateChangeTimestamp s
     \<and> stateChangeTimestamp (loop p now (run cs s)) = stateChangeTimestamp s
     \<and> currentDoorState (loop p now (run cs s)) =
         (if DOOR_TRAVEL_TIME_MS \<le> now - stateChangeTimestamp s then OPEN else OPENING)"
proof -
  have a: "currentDoorState (run cs s) = OPENING
     \<and> stateChangeTimestamp (run cs s) = stateChangeTimestamp s"
    using assms by (rule opening_run)
  then show ?thesis using loop_OPENING [of "run cs s" p now] by simp
qed

text \<open>
  The door that began to open at 0: an obstacle at 100 and motion at 14999 change
  nothing, and the cycle at 15000 ends in \<open>OPEN\<close> although an obstacle is present.
\<close>

theorem opening_independent_of_sensors_witness:
  "currentDoorState door_opening = OPENING \<and> stateChangeTimestamp door_opening = 0
   \<and> 100 - 0 < DOOR_TRAVEL_TIME_MS \<and> 14999 - 0 < DOOR_TRAVEL_TIME_MS
   \<and> currentDoorState (run [(obstacle_signal, 100), (motion_signal, 14999)] door_opening)
       = OPENING
   \<and> stateChangeTimestamp (run [(obstacle_signal, 100), (motion_signal, 14999)] door_opening)
       = 0
   \<and> stateChangeTimestamp
       (loop obstacle_signal 15000
         (run [(obstacle_signal, 100), (motion_signal, 14999)] door_opening)) = 0
   \<and> currentDoorState
       (loop obstacle_signal 15000
         (run [(obstacle_signal, 100), (motion_signal, 14999)] door_opening)) = OPEN"
  using opening_independent_of_sensors
    [of door_opening "[(obstacle_signal, 100), (motion_signal, 14999)]" obstacle_signal 15000]
  by (simp add: door_opening_eq DOOR_TRAVEL_TIME_MS_def)

subsection \<open>The dwell time and the obstacle\<close>

lemma dwell_expired_iff:
  "dwell_expired p now s \<longleftrightarrow>
     \<not> motionDetected p \<and> DOOR_OPEN_DURATION_MS \<le> now - lastMotionDetectedTimestamp s"
  by (simp add: dwell_expired_def record_motion_def)

lemma open_step:
  assumes "currentDoorState s = OPEN"
  shows "currentDoorState (loop p now s) =
     (if \<not> obstacleDetected p \<and> dwell_expired p now s then CLOSING else OPEN)"
  using loop_OPEN [OF assms, of p now] by (simp add: dwell_expired_iff)

lemma dwell_withheld_run:
  "currentDoorState s = OPEN \<Longrightarrow> dwell_withheld cs s \<Longrightarrow>
   currentDoorState (run cs s) = OPEN
   \<and> lastMotionDetectedTimestamp (run cs s) = lastMotionDetectedTimestamp s"
proof (induction cs arbitrary: s)
  case Nil
  then show ?case by simp
next
  case (Cons c cs)
  obtain p now where c: "c = (p, now)" by (cases c)
  from Cons.prems c have obs: "obstacleDetected p" and dw: "dwell_expired p now s"
    and rest: "dwell_withheld cs (loop p now s)" by simp_all
  have st: "currentDoorState (loop p now s) = OPEN"
    using open_step [OF Cons.prems(1), of p now] obs by simp
  have lm: "lastMotionDetectedTimestamp (loop p now s) = lastMotionDetectedTimestamp s"
    using dw by (simp add: loop_lastMotion dwell_expired_iff)
  from Cons.IH [OF st rest] lm c show ?case by simp
qed

lemma no_closing_due_run:
  "currentDoorState s = OPEN \<Longrightarrow> no_closing_due ws s \<Longrightarrow> currentDoorState (run ws s) = OPEN"
proof (induction ws arbitrary: s)
  case Nil
  then show ?case by simp
next
  case (Cons c ws)
  obtain p now where c: "c = (p, now)" by (cases c)
  from Cons.prems c have here: "\<not> (\<not> obstacleDetected p \<and> dwell_expired p now s)"
    and rest: "no_closing_due ws (loop p now s)" by simp_all
  have st: "currentDoorState (loop p now s) = OPEN"
    using open_step [OF Cons.prems(1), of p now] here by simp
  from Cons.IH [OF st rest] c show ?case by simp
qed

text \<open>
  C2. From \<open>OPEN\<close>, through any number of cycles \<open>cs\<close> in each of which the dwell test
  \<open>now - lastMotionDetectedTimestamp \<ge> DOOR_OPEN_DURATION_MS\<close> passes while an obstacle
  is present, the state stays \<open>OPEN\<close> and \<open>lastMotionDetectedTimestamp\<close> is not modified:
  the obstacle does not restart the dwell clock. The state stays \<open>OPEN\<close> through any
  further cycles \<open>ws\<close> in which the test does not pass without an obstacle, and the
  first cycle after them in which no obstacle is present and the test passes ends in
  \<open>CLOSING\<close>.
\<close>

theorem dwell_withheld_while_obstacle:
  assumes "currentDoorState s = OPEN" and "dwell_withheld cs s"
    and "no_closing_due ws (run cs s)"
  shows "currentDoorState (run cs s) = OPEN
     \<and> lastMotionDetectedTimestamp (run cs s) = lastMotionDetectedTimestamp s
     \<and> currentDoorState (run ws (run cs s)) = OPEN
     \<and> currentDoorState (loop p now (run ws (run cs s))) =
         (if \<not> obstacleDetected p \<and> dwell_expired p now (run ws (run cs s))
          then CLOSING else OPEN)"
proof -
  have a: "currentDoorState (run cs s) = OPEN
     \<and> lastMotionDetectedTimestamp (run cs s) = lastMotionDetectedTimestamp s"
    using assms(1,2) by (rule dwell_withheld_run)
  then have b: "currentDoorState (run ws (run cs s)) = OPEN"
    using assms(3) no_closing_due_run by blast
  show ?thesis using a b open_step [OF b, of p now] by simp
qed

text \<open>
  The open door with last motion at 20000 and an obstacle in the cycles at 30000 and
  31000: it stays open with the timestamp at 20000, and closes in a quiet cycle at 32000.
  If motion is seen at 32000 instead, it closes in the quiet cycle at 42000.
\<close>

theorem dwell_withheld_while_obstacle_witness:
  "currentDoorState door_open = OPEN
   \<and> dwell_withheld [(obstacle_signal, 30000), (obstacle_signal, 31000)] door_open
   \<and> currentDoorState (run [(obstacle_signal, 30000), (obstacle_signal, 31000)] door_open) = OPEN
   \<and> lastMotionDetectedTimestamp
        (run [(obstacle_signal, 30000), (obstacle_signal, 31000)] door_open) = 20000
   \<and> currentDoorState (loop no_signal 32000
        (run [] (run [(obstacle_signal, 30000), (obstacle_signal, 31000)] door_open))) = CLOSING
   \<and> currentDoorState (loop no_signal 42000
        (run [(motion_signal, 32000)]
          (run [(obstacle_signal, 30000), (obstacle_signal, 31000)] door_open))) = CLOSING"
proof -
  have is_open: "currentDoorState door_open = OPEN"
    by (simp add: door_open_eq)
  have held: "dwell_withheld [(obstacle_signal, 30000), (obstacle_signal, 31000)] door_open"
    by (simp add: dwell_expired_iff loop_lastMotion door_open_eq DOOR_OPEN_DURATION_MS_def)
  have none: "no_closing_due []
      (run [(obstacle_signal, 30000), (obstacle_signal, 31000)] door_open)"
    by simp
  have motion: "no_closing_due [(motion_signal, 32000)]
      (run [(obstacle_signal, 30000), (obstacle_signal, 31000)] door_open)"
    by (simp add: dwell_expired_iff)
  show ?thesis
    using is_open held
      dwell_withheld_while_obstacle [OF is_open held none, of no_signal 32000]
      dwell_withheld_while_obstacle [OF is_open held motion, of no_signal 42000]
    by (simp add: dwell_expired_iff loop_lastMotion door_open_eq DOOR_OPEN_DURATION_MS_def)
qed

text \<open>
  C3 (scenario C). With the door \<open>OPEN\<close> and last motion at 20000, a cycle at 30000 with
  an obstacle present leaves the state \<open>OPEN\<close>: the override does not apply to an open
  door, and the transition to \<open>CLOSING\<close> is withheld. At the end of the cycle the buzzer
  sounds and the motor relay is on.
\<close>

theorem scenario_C_stays_open:
  assumes "currentDoorState s = OPEN" and "lastMotionDetectedTimestamp s = 20000"
    and "obstacleDetected p"
  shows "currentDoorState (safety_override p 30000 (record_motion p 30000 s)) = OPEN
     \<and> currentDoorState (loop p 30000 s) = OPEN
     \<and> BUZZER_PIN (loop p 30000 s) = HIGH
     \<and> DOOR_MOTOR_RELAY_PIN (loop p 30000 s) = HIGH"
  using assms by (simp add: cycle_defs)

theorem scenario_C_stays_open_witness:
  "currentDoorState door_open = OPEN \<and> lastMotionDetectedTimestamp door_open = 20000
   \<and> obstacleDetected obstacle_signal
   \<and> currentDoorState (loop obstacle_signal 30000 door_open) = OPEN
   \<and> BUZZER_PIN (loop obstacle_signal 30000 door_open) = HIGH
   \<and> DOOR_MOTOR_RELAY_PIN (loop obstacle_signal 30000 door_open) = HIGH"
  using scenario_C_stays_open [of door_open obstacle_signal]
  by (simp add: door_open_eq)

text \<open>
  The scenario as it was written, with the state forced to \<open>OPENING\<close>, does not happen:
  the door that has been open since the cycle at 15000, with last motion at 20000, is
  not in \<open>OPENING\<close> after the cycle at 30000 with an obstacle.
\<close>

theorem scenario_C_not_forced_to_opening:
  "currentDoorState door_open = OPEN \<and> lastMotionDetectedTimestamp door_open = 20000
   \<and> obstacleDetected obstacle_signal
   \<and> currentDoorState (loop obstacle_signal 30000 door_open) \<noteq> OPENING"
  by (simp add: door_open_eq cycle_defs)

subsection \<open>Outputs and totality\<close>

text \<open>
  C5. At the end of every cycle the motor relay is on exactly when the state the cycle
  ends in is \<open>OPENING\<close> or \<open>OPEN\<close>, the status light is green exactly when that state is
  \<open>OPEN\<close>, and the buzzer sounds exactly when the cycle's sensors report an obstacle,
  whatever the state.
\<close>

theorem outputs_follow_final_state:
  "(DOOR_MOTOR_RELAY_PIN (loop p now s) = HIGH \<longleftrightarrow>
      currentDoorState (loop p now s) = OPENING \<or> currentDoorState (loop p now s) = OPEN)
   \<and> (STATUS_LIGHT_RELAY_PIN (loop p now s) = HIGH \<longleftrightarrow> currentDoorState (loop p now s) = OPEN)
   \<and> (BUZZER_PIN (loop p now s) = HIGH \<longleftrightarrow> obstacleDetected p)"
  by (simp add: cycle_defs split: DoorState.split)

text \<open>
  C7. From every state, with every sensor reading and every clock value, one cycle
  yields a next state (\<open>loop\<close> is a total function, so exactly one), and it is one of
  \<open>CLOSED\<close>, \<open>OPENING\<close>, \<open>OPEN\<close>, \<open>CLOSING\<close>.
\<close>

theorem next_state_is_defined:
  "currentDoorState (loop p now s) = CLOSED \<or> currentDoorState (loop p now s) = OPENING
   \<or> currentDoorState (loop p now s) = OPEN \<or> currentDoorState (loop p now s) = CLOSING"
  by (cases "currentDoorState (loop p now s)") simp_all

subsection \<open>Repeating a cycle with the same readings and the same clock value\<close>

lemma loop_twice_lastMotion:
  "lastMotionDetectedTimestamp (loop p now (loop p now s)) =
     lastMotionDetectedTimestamp (loop p now s)"
  by (simp add: loop_lastMotion)

lemma loop_twice_buzzer: "BUZZER_PIN (loop p now (loop p now s)) = BUZZER_PIN (loop p now s)"
  by (simp add: loop_buzzer)

lemma loop_twice_state:
  assumes "\<not> (currentDoorState s = OPENING \<and> currentDoorState (loop p now s) = OPEN)"
    and "\<not> (currentDoorState s = CLOSING \<and> currentDoorState (loop p now s) = CLOSED)"
  shows "currentDoorState (loop p now (loop p now s)) = currentDoorState (loop p now s)
     \<and> stateChangeTimestamp (loop p now (loop p now s)) = stateChangeTimestamp (loop p now s)"
proof (cases "currentDoorState s")
  case CLOSED
  then show ?thesis
    using loop_CLOSED [of s p now] loop_CLOSED [of "loop p now s" p now]
      loop_OPENING [of "loop p now s" p now]
    by (simp split: if_splits)
next
  case OPENING
  then show ?thesis
    using assms loop_OPENING [of s p now] loop_OPENING [of "loop p now s" p now]
    by (simp split: if_splits)
next
  case OPEN
  then show ?thesis
    using loop_OPEN [of s p now] loop_OPEN [of "loop p now s" p now]
      loop_CLOSING [of "loop p now s" p now] loop_lastMotion [of p now s]
    by (simp split: if_splits)
next
  case CLOSING
  then show ?thesis
    using assms loop_CLOSING [of s p now] loop_CLOSING [of "loop p now s" p now]
      loop_OPENING [of "loop p now s" p now]
    by (simp split: if_splits)
qed

lemma loop_twice:
  assumes "\<not> (currentDoorState s = OPENING \<and> currentDoorState (loop p now s) = OPEN)"
    and "\<not> (currentDoorState s = CLOSING \<and> currentDoorState (loop p now s) = CLOSED)"
  shows "loop p now (loop p now s) = loop p now s"
proof (rule door.equality)
  have st: "currentDoorState (loop p now (loop p now s)) = currentDoorState (loop p now s)"
    using loop_twice_state [OF assms] by simp
  then show "currentDoorState (loop p now (loop p now s)) = currentDoorState (loop p now s)" .
  from st show "DOOR_MOTOR_RELAY_PIN (loop p now (loop p now s)) =
      DOOR_MOTOR_RELAY_PIN (loop p now s)"
    by (simp add: loop_motor)
  from st show "STATUS_LIGHT_RELAY_PIN (loop p now (loop p now s)) =
      STATUS_LIGHT_RELAY_PIN (loop p now s)"
    by (simp add: loop_light)
  show "stateChangeTimestamp (loop p now (loop p now s)) = stateChangeTimestamp (loop p now s)"
    using loop_twice_state [OF assms] by simp
qed (simp_all add: loop_twice_lastMotion loop_twice_buzzer)

lemma loop_thrice: "loop p now (loop p now (loop p now s)) = loop p now (loop p now s)"
proof (cases "(currentDoorState s = OPENING \<and> currentDoorState (loop p now s) = OPEN)
    \<or> (currentDoorState s = CLOSING \<and> currentDoorState (loop p now s) = CLOSED)")
  case True
  then show ?thesis using loop_twice [of "loop p now s" p now] by auto
next
  case False
  then show ?thesis using loop_twice [of s p now] by auto
qed

lemma settled_after_two: "(loop p now ^^ Suc (Suc n)) s = loop p now (loop p now s)"
proof (induction n)
  case 0
  show ?case by simp
next
  case (Suc n)
  have "(loop p now ^^ Suc (Suc (Suc n))) s = loop p now ((loop p now ^^ Suc (Suc n)) s)"
    by simp
  also have "\<dots> = loop p now (loop p now (loop p now s))"
    by (simp only: Suc.IH)
  finally show ?case by (simp only: loop_thrice)
qed

lemma settled_after_one:
  assumes "\<not> (currentDoorState s = OPENING \<and> currentDoorState (loop p now s) = OPEN)"
    and "\<not> (currentDoorState s = CLOSING \<and> currentDoorState (loop p now s) = CLOSED)"
  shows "(loop p now ^^ Suc n) s = loop p now s"
proof (induction n)
  case 0
  show ?case by simp
next
  case (Suc n)
  have "(loop p now ^^ Suc (Suc n)) s = loop p now ((loop p now ^^ Suc n) s)"
    by simp
  also have "\<dots> = loop p now (loop p now s)"
    by (simp only: Suc.IH)
  finally show ?case by (simp only: loop_twice [OF assms])
qed

text \<open>
  C6, amended. Calling the cycle again and again with the same sensor readings and the
  same clock value: from the second call on, every call returns the state, the
  timestamps and the outputs of the second call. They are already those of the first
  call unless the first call completed a door travel (\<open>OPENING\<close> to \<open>OPEN\<close>, or
  \<open>CLOSING\<close> to \<open>CLOSED\<close>); after such a call the second call may take one more
  transition.
\<close>

theorem repeated_cycle_settles:
  "(loop p now ^^ Suc (Suc n)) s = loop p now (loop p now s)
   \<and> (\<not> (currentDoorState s = OPENING \<and> currentDoorState (loop p now s) = OPEN)
      \<and> \<not> (currentDoorState s = CLOSING \<and> currentDoorState (loop p now s) = CLOSED)
      \<longrightarrow> (loop p now ^^ Suc n) s = loop p now s)"
  using settled_after_two [where p = p and now = now and n = n and s = s]
    settled_after_one [where p = p and now = now and n = n and s = s]
  by blast

text \<open>Motion at time 0 at the closed door, the cycle called four and five times.\<close>

theorem repeated_cycle_settles_witness:
  "currentDoorState (setup_sketch power_on) = CLOSED
   \<and> (loop motion_signal 0 ^^ Suc (Suc 3)) (setup_sketch power_on) =
       loop motion_signal 0 (loop motion_signal 0 (setup_sketch power_on))
   \<and> (loop motion_signal 0 ^^ Suc 3) (setup_sketch power_on) =
       loop motion_signal 0 (setup_sketch power_on)"
  using repeated_cycle_settles
    [where p = motion_signal and now = 0 and n = 3 and s = "setup_sketch power_on"]
  by (simp add: started_eq)

text \<open>
  Two calls that differ: the door that began to open at 0, called twice at 15000 with
  nothing detected. The first call ends in \<open>OPEN\<close> with motor and green light on; the
  second, with the same readings and the same clock value, ends in \<open>CLOSING\<close> with
  both off, since the dwell time since the last motion at 0 has run out as well.
\<close>

theorem repeated_cycle_not_idempotent:
  "currentDoorState (loop no_signal 15000 door_opening) = OPEN
   \<and> DOOR_MOTOR_RELAY_PIN (loop no_signal 15000 door_opening) = HIGH
   \<and> STATUS_LIGHT_RELAY_PIN (loop no_signal 15000 door_opening) = HIGH
   \<and> currentDoorState (loop no_signal 15000 (loop no_signal 15000 door_opening)) = CLOSING
   \<and> DOOR_MOTOR_RELAY_PIN (loop no_signal 15000 (loop no_signal 15000 door_opening)) = LOW
   \<and> STATUS_LIGHT_RELAY_PIN (loop no_signal 15000 (loop no_signal 15000 door_opening)) = LOW"
  by (simp add: door_opening_eq cycle_defs DOOR_TRAVEL_TIME_MS_def DOOR_OPEN_DURATION_MS_def)

end
